theory Spec2Isabelle
  imports Complex_Main "HOL-Library.Sublist" "HOL-Library.AList"
begin

section \<open>Python strings\<close>

text \<open>
  A Python \<open>str\<close> is a sequence of Unicode code points: a character is its code point,
  a natural number. ASCII literals of the source are written \<open>ascii ''...''\<close>; the
  Cyrillic literals are given by their code points.
\<close>

type_synonym pystr = "nat list"

definition ascii :: "string \<Rightarrow> pystr" where
  "ascii s = map of_char s"

text \<open>
  The exceptions that the modelled code can raise. \<open>ValueError\<close> is what \<open>int()\<close>
  raises on a string it cannot read; \<open>ParserError\<close> stands for any exception raised
  by the \<open>BeautifulSoup\<close> constructor.
\<close>

datatype exn = ValueError | ParserError

subsection \<open>The document tree built by BeautifulSoup\<close>

text \<open>
  A \<open>Tag\<close> has a name, the token list of its \<open>class\<close> attribute (bs4 stores this
  attribute as a list of strings; the empty list also stands for a tag with no class
  attribute), its other attributes with string values (the code reads \<open>style\<close>,
  \<open>alt\<close> and \<open>src\<close>) and its children. \<open>NavigableString\<close> is a text node that
  \<open>get_text\<close> collects; \<open>Comment\<close> stands for the string nodes that \<open>get_text\<close>
  skips (comments, doctype, declarations, the text of scripts and style sheets) but
  that a search by \<open>string=\<close> or \<open>text=\<close> still visits. The \<open>BeautifulSoup\<close> object itself is a \<open>Tag\<close>.
\<close>

datatype node =
    Tag (tag_name: pystr) (classes: "pystr list") (attrs: "(pystr \<times> pystr) list")
        (contents: "node list")
  | NavigableString pystr
  | Comment pystr

subsection \<open>The runtime the code runs on\<close>

text \<open>
  The Unicode tables of the interpreter, its limit on integer conversion and the two
  library functions that are not code of this repository are parameters of the model.
  The tables are needed beyond ASCII only: on ASCII the character classes are written
  out below.
  \<^item> \<open>u_space\<close>: \<open>str.isspace\<close> of one character (also what \<open>\s\<close> and
    \<open>str.strip\<close> use);
  \<^item> \<open>u_decimal\<close>, \<open>u_decimal_value\<close>: the decimal digits (category Nd, what
    \<open>\d\<close> matches and \<open>int()\<close> reads) and their values;
  \<^item> \<open>u_digit\<close>: the further characters that \<open>str.isdigit\<close> accepts (such as
    superscript digits);
  \<^item> \<open>u_alnum\<close>: \<open>str.isalnum\<close> of one character (\<open>\w\<close> is this or an underscore);
  \<^item> \<open>u_lower\<close>: \<open>str.lower\<close> of a string that is not pure ASCII;
  \<^item> \<open>py_float\<close>: \<open>float()\<close> of a string, \<open>None\<close> when it raises \<open>ValueError\<close>;
  \<^item> \<open>int_max_str_digits\<close>: the longest digit string that \<open>int()\<close> converts
    (\<open>sys.get_int_max_str_digits()\<close>, 4300 unless it is set), 0 when there is no limit;
  \<^item> \<open>BeautifulSoup\<close>: the constructor \<open>BeautifulSoup(html, 'html.parser')\<close>.
\<close>

typedecl pyfloat

record runtime =
  u_space :: "nat \<Rightarrow> bool"
  u_decimal :: "nat \<Rightarrow> bool"
  u_decimal_value :: "nat \<Rightarrow> nat"
  u_digit :: "nat \<Rightarrow> bool"
  u_alnum :: "nat \<Rightarrow> bool"
  u_lower :: "pystr \<Rightarrow> pystr"
  py_float :: "pystr \<Rightarrow> pyfloat option"
  int_max_str_digits :: nat
  BeautifulSoup :: "pystr \<Rightarrow> exn + node"

definition is_space :: "runtime \<Rightarrow> nat \<Rightarrow> bool" where
  "is_space R c =
     (if c < 128 then c \<in> {9, 10, 11, 12, 13, 28, 29, 30, 31, 32} else u_space R c)"

definition is_decimal :: "runtime \<Rightarrow> nat \<Rightarrow> bool" where
  "is_decimal R c = (if c < 128 then 48 \<le> c \<and> c \<le> 57 else u_decimal R c)"

definition decimal_value :: "runtime \<Rightarrow> nat \<Rightarrow> nat" where
  "decimal_value R c = (if c < 128 then c - 48 else u_decimal_value R c)"

definition is_digit :: "runtime \<Rightarrow> nat \<Rightarrow> bool" where
  "is_digit R c = (is_decimal R c \<or> (128 \<le> c \<and> u_digit R c))"

definition is_word :: "runtime \<Rightarrow> nat \<Rightarrow> bool" where
  "is_word R c =
     (if c < 128
      then (48 \<le> c \<and> c \<le> 57) \<or> (65 \<le> c \<and> c \<le> 90) \<or> (97 \<le> c \<and> c \<le> 122) \<or> c = 95
      else u_alnum R c)"

text \<open>\<open>s.strip()\<close>, \<open>s.isdigit()\<close>, \<open>s.lower()\<close>, \<open>sub in s\<close>, \<open>s.replace(' ', '')\<close>
  and \<open>s.split('/')[0]\<close>.\<close>

definition strip :: "runtime \<Rightarrow> pystr \<Rightarrow> pystr" where
  "strip R s = rev (dropWhile (is_space R) (rev (dropWhile (is_space R) s)))"

definition isdigit :: "runtime \<Rightarrow> pystr \<Rightarrow> bool" where
  "isdigit R s = (s \<noteq> [] \<and> list_all (is_digit R) s)"

definition lower :: "runtime \<Rightarrow> pystr \<Rightarrow> pystr" where
  "lower R s =
     (if list_all (\<lambda>c. c < 128) s
      then map (\<lambda>c. if 65 \<le> c \<and> c \<le> 90 then c + 32 else c) s
      else u_lower R s)"

fun py_in :: "pystr \<Rightarrow> pystr \<Rightarrow> bool" where
  "py_in sub [] = (sub = [])"
| "py_in sub (c # s) = (prefix sub (c # s) \<or> py_in sub s)"

definition remove_spaces :: "pystr \<Rightarrow> pystr" where
  "remove_spaces s = filter (\<lambda>c. c \<noteq> 32) s"

definition before_slash :: "pystr \<Rightarrow> pystr" where
  "before_slash s = takeWhile (\<lambda>c. c \<noteq> 47) s"

text \<open>
  \<open>int(s)\<close> in base 10: the whitespace around the number is dropped (of the ASCII
  characters, \<open>int()\<close> takes tab, line feed, vertical tab, form feed, carriage return
  and the space for whitespace), one sign is allowed, then decimal digits with single
  underscores between them. The limit of the interpreter is looked at for more than 640
  digits only. \<open>None\<close> is \<open>ValueError\<close>.
\<close>

definition int_space :: "runtime \<Rightarrow> nat \<Rightarrow> bool" where
  "int_space R c = (if c < 128 then c \<in> {9, 10, 11, 12, 13, 32} else u_space R c)"

fun int_literal :: "runtime \<Rightarrow> pystr \<Rightarrow> bool" where
  "int_literal R [] = False"
| "int_literal R [c] = is_decimal R c"
| "int_literal R (c # d # s) =
     (is_decimal R c \<and> (if d = 95 then int_literal R s else int_literal R (d # s)))"

definition digits_value :: "runtime \<Rightarrow> pystr \<Rightarrow> int" where
  "digits_value R s = foldl (\<lambda>a c. 10 * a + int (decimal_value R c)) 0 s"

definition within_limit :: "runtime \<Rightarrow> pystr \<Rightarrow> bool" where
  "within_limit R s =
     (length s \<le> 640 \<or> int_max_str_digits R = 0 \<or> length s \<le> int_max_str_digits R)"

definition py_int :: "runtime \<Rightarrow> pystr \<Rightarrow> int option" where
  "py_int R s =
     (let t = rev (dropWhile (int_space R) (rev (dropWhile (int_space R) s)));
          neg = (t \<noteq> [] \<and> hd t = 45);
          body = (if t \<noteq> [] \<and> (hd t = 43 \<or> hd t = 45) then tl t else t);
          digits = filter (\<lambda>c. c \<noteq> 95) body
      in if int_literal R body \<and> within_limit R digits
         then Some ((if neg then - 1 else 1) * digits_value R digits)
         else None)"

subsection \<open>Searching the tree\<close>

text \<open>\<open>tag.descendants\<close>: every node below a tag, in document order.\<close>

fun descendants :: "node \<Rightarrow> node list" where
  "descendants (Tag n cl ats cs) = concat (map (\<lambda>c. c # descendants c) cs)"
| "descendants (NavigableString s) = []"
| "descendants (Comment s) = []"

fun is_tag :: "pystr \<Rightarrow> node \<Rightarrow> bool" where
  "is_tag n (Tag m cl ats cs) = (m = n)"
| "is_tag n (NavigableString s) = False"
| "is_tag n (Comment s) = False"

definition find_all :: "pystr \<Rightarrow> node \<Rightarrow> node list" where
  "find_all n t = filter (is_tag n) (descendants t)"

definition find :: "pystr \<Rightarrow> node \<Rightarrow> node option" where
  "find n t = (case find_all n t of [] \<Rightarrow> None | x # xs \<Rightarrow> Some x)"

text \<open>\<open>tag.get_text(strip=True)\<close>: the text nodes below the tag, each stripped, the
  empty ones dropped, joined with nothing between them.\<close>

fun text_of :: "node \<Rightarrow> pystr option" where
  "text_of (NavigableString s) = Some s"
| "text_of (Tag n cl ats cs) = None"
| "text_of (Comment s) = None"

definition get_text :: "runtime \<Rightarrow> node \<Rightarrow> pystr" where
  "get_text R t =
     concat (filter (\<lambda>s. s \<noteq> []) (map (strip R) (List.map_filter text_of (descendants t))))"

text \<open>\<open>tag.get(key, '')\<close> on the attributes.\<close>

definition get_attr :: "pystr \<Rightarrow> node \<Rightarrow> pystr" where
  "get_attr k t = (case map_of (attrs t) k of None \<Rightarrow> [] | Some v \<Rightarrow> v)"

section \<open>The leaderboard extractor\<close>

text \<open>The dictionary appended for one accepted row (key \<open>value\<close> is \<open>value_int\<close>).\<close>

record entry =
  rank :: int
  name :: pystr
  value_int :: int
  formatted_value :: pystr

text \<open>A Python value used as a condition: \<open>None\<close> and the empty string are false.\<close>

fun truthy :: "pystr option \<Rightarrow> bool" where
  "truthy None = False"
| "truthy (Some s) = (s \<noteq> [])"

text \<open>The name of the player in a cell: lines 220 to 235 of \<open>scraper.py\<close>.\<close>

definition player_name_of :: "runtime \<Rightarrow> node \<Rightarrow> pystr option" where
  "player_name_of R player_cell =
     (let player_name = (case find (ascii ''a'') player_cell of
                           None \<Rightarrow> None
                         | Some player_link \<Rightarrow> Some (get_text R player_link));
          player_name = (if \<not> truthy player_name
                         then (case find (ascii ''img'') player_cell of
                                 None \<Rightarrow> player_name
                               | Some img \<Rightarrow> Some (strip R (get_attr (ascii ''alt'') img)))
                         else player_name);
          player_name = (if \<not> truthy player_name
                         then Some (get_text R player_cell)
                         else player_name)
      in if truthy player_name
         then (let n1 = strip R (dropWhile (\<lambda>c. is_decimal R c \<or> is_space R c)
                                   (the player_name));
                   n2 = strip R (dropWhile (\<lambda>c. \<not> is_word R c) n1)
               in Some n2)
         else player_name)"

text \<open>\<open>re.sub(r'[^\d\s]', '', value_text)\<close>.\<close>

definition keep_digits_spaces :: "runtime \<Rightarrow> pystr \<Rightarrow> pystr" where
  "keep_digits_spaces R s = filter (\<lambda>c. is_decimal R c \<or> is_space R c) s"

text \<open>Lines 238 to 242 of \<open>scraper.py\<close>: the number read from the value text.\<close>

definition value_of :: "runtime \<Rightarrow> pystr \<Rightarrow> int" where
  "value_of R value_text =
     (let value_clean = remove_spaces (strip R (keep_digits_spaces R value_text))
      in if value_clean \<noteq> []
         then (case py_int R value_clean of Some v \<Rightarrow> v | None \<Rightarrow> 0)
         else 0)"

text \<open>
  The body of the loop over rows (lines 214 to 249): \<open>Inr None\<close> when the row is
  skipped, \<open>Inr (Some e)\<close> when \<open>e\<close> is appended, \<open>Inl ValueError\<close> when
  \<open>int(rank_text)\<close> raises.
\<close>

definition leaderboard_row :: "runtime \<Rightarrow> node \<Rightarrow> exn + entry option" where
  "leaderboard_row R row =
     (let cells = find_all (ascii ''td'') row
      in if 3 \<le> length cells
         then (let rank_text = get_text R (cells ! 0);
                   player_cell = cells ! 1;
                   value_text = get_text R (cells ! 2);
                   player_name = player_name_of R player_cell
               in if isdigit R rank_text \<and> truthy player_name \<and> value_text \<noteq> []
                  then (let v = value_of R value_text
                        in case py_int R rank_text of
                             None \<Rightarrow> Inl ValueError
                           | Some r \<Rightarrow>
                               Inr (Some \<lparr>rank = r, name = the player_name, value_int = v,
                                          formatted_value = value_text\<rparr>))
                  else Inr None)
         else Inr None)"

fun rows_loop :: "runtime \<Rightarrow> node list \<Rightarrow> entry list \<Rightarrow> exn + entry list" where
  "rows_loop R [] players = Inr players"
| "rows_loop R (row # rows) players =
     (case leaderboard_row R row of
        Inl e \<Rightarrow> Inl e
      | Inr None \<Rightarrow> rows_loop R rows players
      | Inr (Some p) \<Rightarrow> rows_loop R rows (players @ [p]))"

fun tables_loop :: "runtime \<Rightarrow> node list \<Rightarrow> entry list \<Rightarrow> exn + entry list" where
  "tables_loop R [] players = Inr players"
| "tables_loop R (table # tables) players =
     (case rows_loop R (find_all (ascii ''tr'') table) players of
        Inl e \<Rightarrow> Inl e
      | Inr players' \<Rightarrow> tables_loop R tables players')"

text \<open>The \<open>try\<close> block of \<open>parse_leaderboard\<close>, and the method with its handler.\<close>

definition leaderboard_body :: "runtime \<Rightarrow> pystr \<Rightarrow> exn + entry list" where
  "leaderboard_body R html =
     (case BeautifulSoup R html of
        Inl e \<Rightarrow> Inl e
      | Inr soup \<Rightarrow>
          (case tables_loop R (find_all (ascii ''table'') soup) [] of
             Inl e \<Rightarrow> Inl e
           | Inr players \<Rightarrow> Inr (take 10 (sort_key rank players))))"

definition parse_leaderboard :: "runtime \<Rightarrow> pystr \<Rightarrow> entry list" where
  "parse_leaderboard R html =
     (case leaderboard_body R html of Inl e \<Rightarrow> [] | Inr players \<Rightarrow> players)"

subsection \<open>The second copy of the extractor\<close>

text \<open>
  \<open>parse_leaderboard\<close> of \<open>src/unnamed/part_000\<close> (``scraper (1).py''). The name of the
  player is found by the same lines; the value is cleaned in two assignments and read
  in an \<open>if\<close> statement under the \<open>try\<close>.
\<close>

definition value_of_1 :: "runtime \<Rightarrow> pystr \<Rightarrow> int" where
  "value_of_1 R value_text =
     (let value_clean = strip R (keep_digits_spaces R value_text);
          value_clean = remove_spaces value_clean
      in case (if value_clean \<noteq> [] then py_int R value_clean else Some 0) of
           Some v \<Rightarrow> v
         | None \<Rightarrow> 0)"

definition leaderboard_row_1 :: "runtime \<Rightarrow> node \<Rightarrow> exn + entry option" where
  "leaderboard_row_1 R row =
     (let cells = find_all (ascii ''td'') row
      in if 3 \<le> length cells
         then (let rank_text = get_text R (cells ! 0);
                   player_cell = cells ! 1;
                   value_text = get_text R (cells ! 2);
                   player_name = player_name_of R player_cell
               in if isdigit R rank_text \<and> truthy player_name \<and> value_text \<noteq> []
                  then (let v = value_of_1 R value_text
                        in case py_int R rank_text of
                             None \<Rightarrow> Inl ValueError
                           | Some r \<Rightarrow>
                               Inr (Some \<lparr>rank = r, name = the player_name, value_int = v,
                                          formatted_value = value_text\<rparr>))
                  else Inr None)
         else Inr None)"

fun rows_loop_1 :: "runtime \<Rightarrow> node list \<Rightarrow> entry list \<Rightarrow> exn + entry list" where
  "rows_loop_1 R [] players = Inr players"
| "rows_loop_1 R (row # rows) players =
     (case leaderboard_row_1 R row of
        Inl e \<Rightarrow> Inl e
      | Inr None \<Rightarrow> rows_loop_1 R rows players
      | Inr (Some p) \<Rightarrow> rows_loop_1 R rows (players @ [p]))"

fun tables_loop_1 :: "runtime \<Rightarrow> node list \<Rightarrow> entry list \<Rightarrow> exn + entry list" where
  "tables_loop_1 R [] players = Inr players"
| "tables_loop_1 R (table # tables) players =
     (case rows_loop_1 R (find_all (ascii ''tr'') table) players of
        Inl e \<Rightarrow> Inl e
      | Inr players' \<Rightarrow> tables_loop_1 R tables players')"

definition parse_leaderboard_1 :: "runtime \<Rightarrow> pystr \<Rightarrow> entry list" where
  "parse_leaderboard_1 R html =
     (case BeautifulSoup R html of
        Inl e \<Rightarrow> []
      | Inr soup \<Rightarrow>
          (case tables_loop_1 R (find_all (ascii ''table'') soup) [] of
             Inl e \<Rightarrow> []
           | Inr players \<Rightarrow> take 10 (sort_key rank players)))"

section \<open>The profile extractor\<close>

text \<open>The Cyrillic literals of \<open>parse_player_profile\<close>, by code point.\<close>

definition profil_igroka :: pystr where
  "profil_igroka =
     [1087, 1088, 1086, 1092, 1080, 1083, 1100, 32, 1080, 1075, 1088, 1086, 1082, 1072]"

definition ofitser :: pystr where
  "ofitser = [45, 1086, 1092, 1080, 1094, 1077, 1088]"

definition General :: pystr where
  "General = [1043, 1077, 1085, 1077, 1088, 1072, 1083]"

definition Kapitan :: pystr where
  "Kapitan = [1050, 1072, 1087, 1080, 1090, 1072, 1085]"

definition Unichtozhil :: pystr where
  "Unichtozhil = [1059, 1085, 1080, 1095, 1090, 1086, 1078, 1080, 1083]"

definition Ubiystv :: pystr where
  "Ubiystv = [1059, 1073, 1080, 1081, 1089, 1090, 1074]"

definition Podbit :: pystr where
  "Podbit = [1055, 1086, 1076, 1073, 1080, 1090]"

definition Smertey :: pystr where
  "Smertey = [1057, 1084, 1077, 1088, 1090, 1077, 1081]"

definition U_P :: pystr where
  "U_P = [1059, 47, 1055]"

definition zolotykh_yashchikov :: pystr where
  "zolotykh_yashchikov =
     [1079, 1086, 1083, 1086, 1090, 1099, 1093, 32, 1103, 1097, 1080, 1082, 1086, 1074]"

definition Premium :: pystr where
  "Premium = [1055, 1088, 1077, 1084, 1080, 1091, 1084]"

definition Da :: pystr where
  "Da = [1044, 1072]"

definition Gruppa :: pystr where
  "Gruppa = [1043, 1088, 1091, 1087, 1087, 1072]"

datatype activity = Unknown | Online | Offline

record equipment =
  turrets :: "pystr list"
  hulls :: "pystr list"
  paints :: "pystr list"
  modules :: "pystr list"

text \<open>
  The dictionary \<open>player_data\<close> (key \<open>rank\<close> is \<open>rank_p\<close>, key \<open>group\<close> is
  \<open>group_p\<close>). The values of \<open>activity\<close> stand for the strings \<open>'Unknown'\<close>,
  \<open>'Online'\<close> and \<open>'Offline'\<close>. \<open>rankings\<close> is a dictionary in insertion order,
  from the category to the pair of \<open>rank\<close> and \<open>value\<close>.
\<close>

record player_data =
  nickname :: pystr
  rank_p :: "pystr option"
  experience :: "int option"
  kills :: "int option"
  deaths :: "int option"
  kd_ratio :: "pyfloat option"
  gold_boxes :: "int option"
  premium :: "bool option"
  group_p :: "pystr option"
  activity :: activity
  rankings :: "(pystr \<times> pystr \<times> pystr) list"
  equipment :: equipment

text \<open>\<open>' '.join(tokens)\<close>, and a search by \<open>class_\<close>: a token of the class attribute
  matches, or the whole attribute does.\<close>

fun join_space :: "pystr list \<Rightarrow> pystr" where
  "join_space [] = []"
| "join_space [x] = x"
| "join_space (x # y # r) = x @ [32] @ join_space (y # r)"

definition class_matches :: "(pystr \<Rightarrow> bool) \<Rightarrow> pystr list \<Rightarrow> bool" where
  "class_matches P cl = (list_ex P cl \<or> P (join_space cl))"

subsection \<open>Activity status (lines 100 to 106)\<close>

fun span_user_online :: "node \<Rightarrow> bool" where
  "span_user_online (Tag n cl ats cs) =
     (n = ascii ''span'' \<and> class_matches (\<lambda>c. c = ascii ''user_online'') cl)"
| "span_user_online (NavigableString s) = False"
| "span_user_online (Comment s) = False"

definition dot_element :: "node \<Rightarrow> node option" where
  "dot_element soup =
     (case filter span_user_online (descendants soup) of [] \<Rightarrow> None | x # xs \<Rightarrow> Some x)"

definition activity_of :: "runtime \<Rightarrow> node \<Rightarrow> activity" where
  "activity_of R soup =
     (case dot_element soup of
        None \<Rightarrow> Unknown
      | Some el \<Rightarrow>
          (case map_of (attrs el) (ascii ''style'') of
             None \<Rightarrow> Unknown
           | Some style \<Rightarrow>
               if py_in (ascii ''green'') (lower R style) then Online
               else if py_in (ascii ''gray'') (lower R style)
                       \<or> py_in (ascii ''grey'') (lower R style) then Offline
               else Unknown))"

subsection \<open>Rank (lines 108 to 111)\<close>

text \<open>\<open>tag.string\<close>: the only child when it is a string, or its \<open>string\<close> when it is a
  tag; \<open>None\<close> when the tag has no child or several.\<close>

fun tag_string :: "node \<Rightarrow> pystr option" where
  "tag_string (Tag n cl ats [c]) = tag_string c"
| "tag_string (Tag n cl ats cs) = None"
| "tag_string (NavigableString s) = Some s"
| "tag_string (Comment s) = Some s"

text \<open>A search with \<open>.*X.*|.*Y.*|.*Z.*\<close> succeeds exactly when one of the three words
  occurs in the string.\<close>

definition rank_pattern :: "pystr \<Rightarrow> bool" where
  "rank_pattern s = (py_in ofitser s \<or> py_in General s \<or> py_in Kapitan s)"

definition rank_div :: "node \<Rightarrow> bool" where
  "rank_div t =
     (is_tag (ascii ''div'') t
      \<and> (case tag_string t of None \<Rightarrow> False | Some s \<Rightarrow> rank_pattern s))"

definition rank_of :: "runtime \<Rightarrow> node \<Rightarrow> pystr option" where
  "rank_of R soup =
     (case filter rank_div (descendants soup) of
        [] \<Rightarrow> None
      | rank_section # xs \<Rightarrow> Some (get_text R rank_section))"

subsection \<open>Experience (lines 113 to 119)\<close>

text \<open>
  A search with \<open>\d+\s*/\s*\d+|\d+\s+/\s+\d+\<close>: somewhere a decimal digit, then any
  whitespace, a slash, any whitespace and a decimal digit (the second alternative asks
  for more than the first).
\<close>

fun spaces_then :: "runtime \<Rightarrow> (pystr \<Rightarrow> bool) \<Rightarrow> pystr \<Rightarrow> bool" where
  "spaces_then R P [] = P []"
| "spaces_then R P (c # s) = (P (c # s) \<or> (is_space R c \<and> spaces_then R P s))"

fun starts_decimal :: "runtime \<Rightarrow> pystr \<Rightarrow> bool" where
  "starts_decimal R [] = False"
| "starts_decimal R (c # s) = is_decimal R c"

fun slash_then :: "runtime \<Rightarrow> pystr \<Rightarrow> bool" where
  "slash_then R [] = False"
| "slash_then R (c # s) = (c = 47 \<and> spaces_then R (starts_decimal R) s)"

fun exp_pattern :: "runtime \<Rightarrow> pystr \<Rightarrow> bool" where
  "exp_pattern R [] = False"
| "exp_pattern R (c # s) =
     ((is_decimal R c \<and> spaces_then R (slash_then R) s) \<or> exp_pattern R s)"

fun string_of :: "node \<Rightarrow> pystr option" where
  "string_of (NavigableString s) = Some s"
| "string_of (Comment s) = Some s"
| "string_of (Tag n cl ats cs) = None"

definition exp_elements :: "runtime \<Rightarrow> node \<Rightarrow> pystr list" where
  "exp_elements R soup = filter (exp_pattern R) (List.map_filter string_of (descendants soup))"

text \<open>The loop over \<open>exp_elements\<close>: \<open>Inr None\<close> when no element sets the field.\<close>

fun experience_loop :: "runtime \<Rightarrow> pystr list \<Rightarrow> exn + int option" where
  "experience_loop R [] = Inr None"
| "experience_loop R (exp_text # rest) =
     (if py_in [47] exp_text
      then (let current_exp = remove_spaces (strip R (before_slash exp_text))
            in if isdigit R current_exp
               then (case py_int R current_exp of
                       None \<Rightarrow> Inl ValueError
                     | Some n \<Rightarrow> Inr (Some n))
               else experience_loop R rest)
      else experience_loop R rest)"

subsection \<open>Statistics from the tables (lines 121 to 147)\<close>

text \<open>The branches on the label of a row (lines 130 to 147).\<close>

definition stat_update :: "runtime \<Rightarrow> pystr \<Rightarrow> pystr \<Rightarrow> player_data \<Rightarrow> exn + player_data" where
  "stat_update R key val pd =
     (if py_in Unichtozhil key \<or> py_in Ubiystv key
      then (if isdigit R val
            then (case py_int R val of
                    None \<Rightarrow> Inl ValueError
                  | Some n \<Rightarrow> Inr (pd\<lparr>kills := Some n\<rparr>))
            else Inr pd)
      else if py_in Podbit key \<or> py_in Smertey key
      then (if isdigit R val
            then (case py_int R val of
                    None \<Rightarrow> Inl ValueError
                  | Some n \<Rightarrow> Inr (pd\<lparr>deaths := Some n\<rparr>))
            else Inr pd)
      else if py_in U_P key \<or> py_in (ascii ''K/D'') key
      then (case py_float R val of
              None \<Rightarrow> Inr pd
            | Some f \<Rightarrow> Inr (pd\<lparr>kd_ratio := Some f\<rparr>))
      else if py_in zolotykh_yashchikov key
      then (if isdigit R val
            then (case py_int R val of
                    None \<Rightarrow> Inl ValueError
                  | Some n \<Rightarrow> Inr (pd\<lparr>gold_boxes := Some n\<rparr>))
            else Inr pd)
      else if py_in Premium key
      then Inr (pd\<lparr>premium := Some (py_in Da val)\<rparr>)
      else if py_in Gruppa key
      then Inr (pd\<lparr>group_p := Some val\<rparr>)
      else Inr pd)"

text \<open>The label and the value of a row with two cells or more (lines 125 to 128).\<close>

definition key_value :: "runtime \<Rightarrow> node \<Rightarrow> (pystr \<times> pystr) option" where
  "key_value R row =
     (let cells = find_all (ascii ''td'') row
      in if 2 \<le> length cells
         then Some (get_text R (cells ! 0), get_text R (cells ! 1))
         else None)"

definition stat_row :: "runtime \<Rightarrow> node \<Rightarrow> player_data \<Rightarrow> exn + player_data" where
  "stat_row R row pd =
     (case key_value R row of
        None \<Rightarrow> Inr pd
      | Some (key, val) \<Rightarrow> stat_update R key val pd)"

fun stat_rows_loop :: "runtime \<Rightarrow> node list \<Rightarrow> player_data \<Rightarrow> exn + player_data" where
  "stat_rows_loop R [] pd = Inr pd"
| "stat_rows_loop R (row # rows) pd =
     (case stat_row R row pd of
        Inl e \<Rightarrow> Inl e
      | Inr pd' \<Rightarrow> stat_rows_loop R rows pd')"

fun stat_tables_loop :: "runtime \<Rightarrow> node list \<Rightarrow> player_data \<Rightarrow> exn + player_data" where
  "stat_tables_loop R [] pd = Inr pd"
| "stat_tables_loop R (table # tables) pd =
     (case stat_rows_loop R (find_all (ascii ''tr'') table) pd of
        Inl e \<Rightarrow> Inl e
      | Inr pd' \<Rightarrow> stat_tables_loop R tables pd')"

subsection \<open>Rankings from the first table (lines 149 to 163)\<close>

definition ranking_row ::
  "runtime \<Rightarrow> node \<Rightarrow> (pystr \<times> pystr \<times> pystr) list \<Rightarrow> (pystr \<times> pystr \<times> pystr) list" where
  "ranking_row R row rs =
     (let cells = find_all (ascii ''td'') row
      in if 3 \<le> length cells
         then (let category = get_text R (cells ! 0);
                   rnk = get_text R (cells ! 1);
                   val = get_text R (cells ! 2)
               in if category \<noteq> [] \<and> rnk \<noteq> [] \<and> val \<noteq> []
                  then AList.update category (rnk, val) rs
                  else rs)
         else rs)"

definition rankings_of ::
  "runtime \<Rightarrow> node \<Rightarrow> (pystr \<times> pystr \<times> pystr) list \<Rightarrow> (pystr \<times> pystr \<times> pystr) list" where
  "rankings_of R soup rs =
     (case find (ascii ''table'') soup of
        None \<Rightarrow> rs
      | Some ranking_section \<Rightarrow> fold (ranking_row R) (find_all (ascii ''tr'') ranking_section) rs)"

subsection \<open>Equipment (lines 165 to 179)\<close>

definition equipment_pattern :: "pystr \<Rightarrow> bool" where
  "equipment_pattern s = (py_in (ascii ''equipment'') s \<or> py_in (ascii ''gear'') s)"

fun equipment_div :: "node \<Rightarrow> bool" where
  "equipment_div (Tag n cl ats cs) =
     (n = ascii ''div'' \<and> class_matches equipment_pattern cl)"
| "equipment_div (NavigableString s) = False"
| "equipment_div (Comment s) = False"

definition equipment_img :: "node \<Rightarrow> equipment \<Rightarrow> equipment" where
  "equipment_img img eq =
     (let alt_text = get_attr (ascii ''alt'') img;
          src = get_attr (ascii ''src'') img
      in if py_in (ascii ''turrets'') src then eq\<lparr>turrets := turrets eq @ [alt_text]\<rparr>
         else if py_in (ascii ''hulls'') src then eq\<lparr>hulls := hulls eq @ [alt_text]\<rparr>
         else if py_in (ascii ''colormaps'') src then eq\<lparr>paints := paints eq @ [alt_text]\<rparr>
         else if py_in (ascii ''resistances'') src then eq\<lparr>modules := modules eq @ [alt_text]\<rparr>
         else eq)"

definition equipment_of :: "node \<Rightarrow> equipment \<Rightarrow> equipment" where
  "equipment_of soup eq =
     fold (\<lambda>section. fold equipment_img (find_all (ascii ''img'') section))
          (filter equipment_div (descendants soup)) eq"

subsection \<open>The whole method\<close>

definition initial_player_data :: "pystr \<Rightarrow> player_data" where
  "initial_player_data nick =
     \<lparr>nickname = nick, rank_p = None, experience = None, kills = None, deaths = None,
      kd_ratio = None, gold_boxes = None, premium = None, group_p = None,
      activity = Unknown, rankings = [],
      equipment = \<lparr>turrets = [], hulls = [], paints = [], modules = []\<rparr>\<rparr>"

text \<open>The existence gate of line 76: true when the method goes on.\<close>

definition player_exists :: "runtime \<Rightarrow> pystr \<Rightarrow> pystr \<Rightarrow> bool" where
  "player_exists R html nick =
     (\<not> (\<not> py_in profil_igroka (lower R html) \<and> \<not> py_in (lower R nick) (lower R html)))"

text \<open>The \<open>try\<close> block of \<open>parse_player_profile\<close>: \<open>Inl\<close> is an exception, \<open>Inr None\<close>
  the \<open>return None\<close> of the gate.\<close>

definition profile_body :: "runtime \<Rightarrow> pystr \<Rightarrow> pystr \<Rightarrow> exn + player_data option" where
  "profile_body R html nick =
     (case BeautifulSoup R html of
        Inl e \<Rightarrow> Inl e
      | Inr soup \<Rightarrow>
          if \<not> player_exists R html nick then Inr None
          else (let pd = initial_player_data nick;
                    pd = pd\<lparr>activity := activity_of R soup\<rparr>;
                    pd = (case rank_of R soup of
                            None \<Rightarrow> pd
                          | Some rank_text \<Rightarrow> pd\<lparr>rank_p := Some rank_text\<rparr>)
                in case experience_loop R (exp_elements R soup) of
                     Inl e \<Rightarrow> Inl e
                   | Inr ex \<Rightarrow>
                       (let pd = (case ex of None \<Rightarrow> pd | Some n \<Rightarrow> pd\<lparr>experience := Some n\<rparr>)
                        in case stat_tables_loop R (find_all (ascii ''table'') soup) pd of
                             Inl e \<Rightarrow> Inl e
                           | Inr pd \<Rightarrow>
                               (let pd = pd\<lparr>rankings := rankings_of R soup (rankings pd)\<rparr>;
                                    pd = pd\<lparr>equipment := equipment_of soup (equipment pd)\<rparr>
                                in Inr (Some pd)))))"

definition parse_player_profile :: "runtime \<Rightarrow> pystr \<Rightarrow> pystr \<Rightarrow> player_data option" where
  "parse_player_profile R html nick =
     (case profile_body R html nick of Inl e \<Rightarrow> None | Inr r \<Rightarrow> r)"

section \<open>The cache\<close>







section \<open>The two extractors as methods\<close>


section \<open>Notions used in the statements\<close>

text \<open>The rows that the two nested loops of either extractor visit, in order: for every
  table of the document, every row below it.\<close>

definition table_rows :: "node \<Rightarrow> node list" where
  "table_rows soup =
     concat (map (find_all (ascii ''tr'')) (find_all (ascii ''table'') soup))"

text \<open>The entry of a row that the leaderboard loop accepts, and the accepted entries of a
  document in the order of the scan.\<close>

definition accepted :: "runtime \<Rightarrow> node \<Rightarrow> entry option" where
  "accepted R row =
     (case leaderboard_row R row of Inl e \<Rightarrow> None | Inr r \<Rightarrow> r)"

definition accepted_entries :: "runtime \<Rightarrow> node \<Rightarrow> entry list" where
  "accepted_entries R soup = List.map_filter (accepted R) (table_rows soup)"

text \<open>The labels and values that the statistics loop reads, in order, and the loop run
  on them.\<close>

definition key_values :: "runtime \<Rightarrow> node \<Rightarrow> (pystr \<times> pystr) list" where
  "key_values R soup = List.map_filter (key_value R) (table_rows soup)"


text \<open>
  The value as the specification words it: every character except digits and whitespace
  deleted, then the whitespace deleted, then the rest read as a decimal integer, 0 when
  it is empty or cannot be read.
\<close>

definition value_as_specified :: "runtime \<Rightarrow> pystr \<Rightarrow> int" where
  "value_as_specified R value_text =
     (let digits = filter (\<lambda>c. \<not> is_space R c) (keep_digits_spaces R value_text)
      in if digits = [] then 0
         else (case py_int R digits of None \<Rightarrow> 0 | Some v \<Rightarrow> v))"

section \<open>Sample pages\<close>

text \<open>
  Pages on which the model is run, each with the tree that \<open>html.parser\<close> builds for
  it. They are written with ASCII characters, the superscript two (U+00B2) and the
  Cyrillic letters U+0410 to U+044F only; on these characters \<open>sample_runtime\<close>
  carries the tables of CPython: the whitespace characters beyond ASCII, no decimal
  digit beyond ASCII below U+0660, the superscript digits U+00B2, U+00B3 and U+00B9
  that \<open>isdigit\<close> accepts, and the lower case of the Cyrillic capitals 32 code points
  above them. The limit of \<open>int()\<close> is the 4300 digits of the interpreter. No sample
  reaches \<open>float()\<close>.
\<close>

definition Ubil :: pystr where
  "Ubil = [1059, 1073, 1080, 1083]"

definition elem :: "string \<Rightarrow> node list \<Rightarrow> node" where
  "elem n cs = Tag (ascii n) [] [] cs"

definition cell :: "pystr \<Rightarrow> node" where
  "cell s = Tag (ascii ''td'') [] [] [NavigableString s]"

definition link_cell :: "string \<Rightarrow> node" where
  "link_cell s = Tag (ascii ''td'') [] [] [Tag (ascii ''a'') [] [] [NavigableString (ascii s)]]"

text \<open>The example of the specification, second row first:
  \<open><table><tr><td>2</td><td><a>Bob</a></td><td>500</td></tr>
  <tr><td>1</td><td><a>Alice</a></td><td>1 000</td></tr></table>\<close> (on one line).\<close>

definition html_two_rows :: pystr where
  "html_two_rows =
     ascii (''<table><tr><td>2</td><td><a>Bob</a></td><td>500</td></tr>''
            @ ''<tr><td>1</td><td><a>Alice</a></td><td>1 000</td></tr></table>'')"

definition soup_two_rows :: node where
  "soup_two_rows =
     elem ''[document]'' [elem ''table''
       [elem ''tr'' [cell (ascii ''2''), link_cell ''Bob'', cell (ascii ''500'')],
        elem ''tr'' [cell (ascii ''1''), link_cell ''Alice'', cell (ascii ''1 000'')]]]"

text \<open>The same two rows in two tables:
  \<open><table><tr><td>2</td><td><a>Bob</a></td><td>500</td></tr></table>
  <table><tr><td>1</td><td><a>Alice</a></td><td>1 000</td></tr></table>\<close> (on one line).\<close>

definition html_two_tables :: pystr where
  "html_two_tables =
     ascii (''<table><tr><td>2</td><td><a>Bob</a></td><td>500</td></tr></table>''
            @ ''<table><tr><td>1</td><td><a>Alice</a></td><td>1 000</td></tr></table>'')"

definition soup_two_tables :: node where
  "soup_two_tables =
     elem ''[document]''
       [elem ''table''
          [elem ''tr'' [cell (ascii ''2''), link_cell ''Bob'', cell (ascii ''500'')]],
        elem ''table''
          [elem ''tr'' [cell (ascii ''1''), link_cell ''Alice'', cell (ascii ''1 000'')]]]"

text \<open>A row of rank 1 and a row whose rank is the superscript two.\<close>

definition html_superscript_rank :: pystr where
  "html_superscript_rank =
     ascii ''<table><tr><td>1</td><td><a>Alice</a></td><td>5</td></tr><tr><td>''
     @ [178] @ ascii ''</td><td><a>Bob</a></td><td>7</td></tr></table>''"

definition soup_superscript_rank :: node where
  "soup_superscript_rank =
     elem ''[document]'' [elem ''table''
       [elem ''tr'' [cell (ascii ''1''), link_cell ''Alice'', cell (ascii ''5'')],
        elem ''tr'' [cell [178], link_cell ''Bob'', cell (ascii ''7'')]]]"

text \<open>The single row whose rank is the superscript two.\<close>

definition html_superscript_only :: pystr where
  "html_superscript_only =
     ascii ''<table><tr><td>'' @ [178] @ ascii ''</td><td><a>Bob</a></td><td>7</td></tr></table>''"

definition row_superscript :: node where
  "row_superscript = elem ''tr'' [cell [178], link_cell ''Bob'', cell (ascii ''7'')]"

definition soup_superscript_only :: node where
  "soup_superscript_only = elem ''[document]'' [elem ''table'' [row_superscript]]"

text \<open>A value with a tab (U+0009) between its digits.\<close>

definition one_tab_000 :: pystr where
  "one_tab_000 = ascii ''1'' @ [9] @ ascii ''000''"

definition html_tab_value :: pystr where
  "html_tab_value =
     ascii ''<table><tr><td>1</td><td><a>Alice</a></td><td>'' @ one_tab_000
     @ ascii ''</td></tr></table>''"

definition soup_tab_value :: node where
  "soup_tab_value =
     elem ''[document]'' [elem ''table''
       [elem ''tr'' [cell (ascii ''1''), link_cell ''Alice'', cell one_tab_000]]]"

text \<open>A profile page with the marker phrase in a heading and the three rows of the
  specification's example.\<close>

definition html_profile_ubil :: pystr where
  "html_profile_ubil =
     ascii ''<h1>'' @ profil_igroka @ ascii ''</h1><table><tr><td>'' @ Ubil
     @ ascii ''</td><td>42</td></tr><tr><td>'' @ Podbit
     @ ascii ''</td><td>7</td></tr><tr><td>'' @ Premium @ ascii ''</td><td>'' @ Da
     @ ascii ''</td></tr></table>''"

definition soup_profile_ubil :: node where
  "soup_profile_ubil =
     elem ''[document]''
       [elem ''h1'' [NavigableString profil_igroka],
        elem ''table''
          [elem ''tr'' [cell Ubil, cell (ascii ''42'')],
           elem ''tr'' [cell Podbit, cell (ascii ''7'')],
           elem ''tr'' [cell Premium, cell Da]]]"

text \<open>A page with a table and neither the marker phrase nor the nickname \<open>Foo\<close>.\<close>

definition html_no_player :: pystr where
  "html_no_player =
     ascii ''<table><tr><td>'' @ Podbit @ ascii ''</td><td>7</td></tr></table>''"

definition soup_no_player :: node where
  "soup_no_player =
     elem ''[document]'' [elem ''table'' [elem ''tr'' [cell Podbit, cell (ascii ''7'')]]]"

text \<open>A page with the nickname and a green online indicator.\<close>

definition html_online :: pystr where
  "html_online =
     ascii (''<div>Foo</div><span class='' @ [CHR 0x22] @ ''user_online'' @ [CHR 0x22]
            @ '' style='' @ [CHR 0x22] @ ''background: green'' @ [CHR 0x22] @ ''></span>'')"

definition soup_online :: node where
  "soup_online =
     elem ''[document]''
       [elem ''div'' [NavigableString (ascii ''Foo'')],
        Tag (ascii ''span'') [ascii ''user_online'']
            [(ascii ''style'', ascii ''background: green'')] []]"

text \<open>A profile page whose number of kills is the superscript two.\<close>

definition html_profile_superscript :: pystr where
  "html_profile_superscript =
     ascii ''<h1>'' @ profil_igroka @ ascii ''</h1><table><tr><td>'' @ Ubiystv
     @ ascii ''</td><td>'' @ [178] @ ascii ''</td></tr></table>''"

definition soup_profile_superscript :: node where
  "soup_profile_superscript =
     elem ''[document]''
       [elem ''h1'' [NavigableString profil_igroka],
        elem ''table'' [elem ''tr'' [cell Ubiystv, cell [178]]]]"

definition sample_soup :: "pystr \<Rightarrow> exn + node" where
  "sample_soup html =
     (if html = html_two_rows then Inr soup_two_rows
      else if html = html_two_tables then Inr soup_two_tables
      else if html = html_superscript_rank then Inr soup_superscript_rank
      else if html = html_superscript_only then Inr soup_superscript_only
      else if html = html_tab_value then Inr soup_tab_value
      else if html = html_profile_ubil then Inr soup_profile_ubil
      else if html = html_no_player then Inr soup_no_player
      else if html = html_online then Inr soup_online
      else if html = html_profile_superscript then Inr soup_profile_superscript
      else Inl ParserError)"

definition sample_runtime :: runtime where
  "sample_runtime =
     \<lparr>u_space = (\<lambda>c. c \<in> {133, 160, 5760, 8232, 8233, 8239, 8287, 12288}
                       \<or> (8192 \<le> c \<and> c \<le> 8202)),
      u_decimal = (\<lambda>c. False),
      u_decimal_value = (\<lambda>c. 0),
      u_digit = (\<lambda>c. c \<in> {178, 179, 185}),
      u_alnum = (\<lambda>c. c \<in> {178, 179, 185} \<or> (1040 \<le> c \<and> c \<le> 1103)),
      u_lower = map (\<lambda>c. if (65 \<le> c \<and> c \<le> 90) \<or> (1040 \<le> c \<and> c \<le> 1071)
                           then c + 32 else c),
      py_float = (\<lambda>s. None),
      int_max_str_digits = 4300,
      BeautifulSoup = sample_soup\<rparr>"

section \<open>Running the model on the sample pages\<close>

lemmas string_defs = ascii_def profil_igroka_def ofitser_def General_def Kapitan_def
  Unichtozhil_def Ubiystv_def Podbit_def Smertey_def U_P_def zolotykh_yashchikov_def
  Premium_def Da_def Gruppa_def Ubil_def

lemmas char_defs = is_space_def is_decimal_def decimal_value_def is_digit_def is_word_def
  strip_def isdigit_def lower_def remove_spaces_def before_slash_def digits_value_def
  py_int_def int_space_def within_limit_def keep_digits_spaces_def

lemmas tree_defs = find_all_def find_def get_text_def get_attr_def List.map_filter_def
  elem_def cell_def link_cell_def table_rows_def

lemmas html_defs = html_two_rows_def html_two_tables_def html_superscript_rank_def html_superscript_only_def
  one_tab_000_def html_tab_value_def html_profile_ubil_def html_no_player_def
  html_online_def html_profile_superscript_def

lemmas leaderboard_defs = leaderboard_body_def leaderboard_row_def player_name_of_def
  value_of_def Let_def

lemmas profile_defs = profile_body_def player_exists_def initial_player_data_def
  activity_of_def dot_element_def class_matches_def rank_of_def rank_div_def
  rank_pattern_def exp_elements_def stat_row_def key_value_def stat_update_def
  rankings_of_def ranking_row_def equipment_of_def equipment_pattern_def Let_def

lemma soup_of_two_rows: "BeautifulSoup sample_runtime html_two_rows = Inr soup_two_rows"
  by (simp add: sample_runtime_def sample_soup_def)



lemma soup_of_superscript_only:
  "BeautifulSoup sample_runtime html_superscript_only = Inr soup_superscript_only"
  by (simp add: sample_runtime_def sample_soup_def html_defs string_defs)

lemma soup_of_tab_value: "BeautifulSoup sample_runtime html_tab_value = Inr soup_tab_value"
  by (simp add: sample_runtime_def sample_soup_def html_defs string_defs)


lemma soup_of_no_player: "BeautifulSoup sample_runtime html_no_player = Inr soup_no_player"
  by (simp add: sample_runtime_def sample_soup_def html_defs string_defs)

lemma soup_of_online: "BeautifulSoup sample_runtime html_online = Inr soup_online"
  by (simp add: sample_runtime_def sample_soup_def html_defs string_defs)


section \<open>The two copies of the leaderboard extractor\<close>

lemma value_of_1_eq: "value_of_1 R t = value_of R t"
  by (simp add: value_of_1_def value_of_def Let_def)

lemma leaderboard_row_1_eq: "leaderboard_row_1 R row = leaderboard_row R row"
  unfolding leaderboard_row_1_def leaderboard_row_def value_of_1_eq ..

lemma rows_loop_1_eq: "rows_loop_1 R rows players = rows_loop R rows players"
  by (induction rows arbitrary: players)
    (simp_all add: leaderboard_row_1_eq split: sum.splits option.splits)

lemma tables_loop_1_eq: "tables_loop_1 R tables players = tables_loop R tables players"
  by (induction tables arbitrary: players)
    (simp_all add: rows_loop_1_eq split: sum.splits)

text \<open>
  Claim C10. The leaderboard extractor of \<open>src/scraper.py\<close> and its copy in
  \<open>src/unnamed/part_000\<close> return the same list of entries on every page, whatever the
  parser and the Unicode tables are.
\<close>

theorem parse_leaderboard_copies_agree:
  "parse_leaderboard_1 R html = parse_leaderboard R html"
  by (simp add: parse_leaderboard_1_def parse_leaderboard_def leaderboard_body_def
      tables_loop_1_eq split: sum.splits)

section \<open>The extractors as pure functions\<close>


section \<open>The cache\<close>



section \<open>The existence gate\<close>

text \<open>
  Claim C2. When neither the marker phrase nor the nickname in lower case occurs in the
  page in lower case, \<open>parse_player_profile\<close> returns \<open>None\<close>, whatever the page
  contains and whatever the parser makes of it.
\<close>

theorem gate_absent:
  assumes "\<not> py_in profil_igroka (lower R html)"
    and "\<not> py_in (lower R nick) (lower R html)"
  shows "parse_player_profile R html nick = None"
  using assms
  by (simp add: parse_player_profile_def profile_body_def player_exists_def split: sum.splits)

theorem gate_absent_witness:
  "\<not> py_in profil_igroka (lower sample_runtime html_no_player)
   \<and> \<not> py_in (lower sample_runtime (ascii ''Foo'')) (lower sample_runtime html_no_player)
   \<and> key_values sample_runtime soup_no_player = [(Podbit, ascii ''7'')]
   \<and> parse_player_profile sample_runtime html_no_player (ascii ''Foo'') = None"
proof -
  have h1: "\<not> py_in profil_igroka (lower sample_runtime html_no_player)"
    by (simp add: string_defs char_defs html_defs sample_runtime_def)
  have h2: "\<not> py_in (lower sample_runtime (ascii ''Foo'')) (lower sample_runtime html_no_player)"
    by (simp add: string_defs char_defs html_defs sample_runtime_def)
  have h3: "key_values sample_runtime soup_no_player = [(Podbit, ascii ''7'')]"
    by (simp add: key_values_def key_value_def string_defs char_defs tree_defs
        soup_no_player_def sample_runtime_def)
  show ?thesis
    using h1 h2 h3 gate_absent [OF h1 h2] by blast
qed

section \<open>Exceptions\<close>



section \<open>The activity status\<close>

lemma stat_update_activity:
  "stat_update R key val pd = Inr pd' \<Longrightarrow> activity pd' = activity pd"
  by (auto simp: stat_update_def split: if_splits option.splits)

lemma stat_row_activity: "stat_row R row pd = Inr pd' \<Longrightarrow> activity pd' = activity pd"
  by (auto simp: stat_row_def split: option.splits dest: stat_update_activity)

lemma stat_rows_loop_activity:
  "stat_rows_loop R rows pd = Inr pd' \<Longrightarrow> activity pd' = activity pd"
proof (induction rows arbitrary: pd)
  case Nil
  then show ?case by simp
next
  case (Cons row rows)
  then show ?case
    by (auto split: sum.splits dest: stat_row_activity)
qed

lemma stat_tables_loop_activity:
  "stat_tables_loop R tables pd = Inr pd' \<Longrightarrow> activity pd' = activity pd"
proof (induction tables arbitrary: pd)
  case Nil
  then show ?case by simp
next
  case (Cons t tables)
  then show ?case
    by (auto split: sum.splits dest: stat_rows_loop_activity)
qed

lemma profile_activity:
  assumes "parse_player_profile R html nick = Some p"
    and "BeautifulSoup R html = Inr soup"
  shows "activity p = activity_of R soup"
  using assms
  by (auto simp: parse_player_profile_def profile_body_def Let_def
      split: sum.splits if_splits option.splits dest!: stat_tables_loop_activity)

text \<open>
  Claim C8. In every profile that \<open>parse_player_profile\<close> returns, \<open>activity\<close> is
  \<open>Online\<close> when the style of the online indicator (the first \<open>span\<close> of class
  \<open>user_online\<close>) contains \<open>green\<close>, \<open>Offline\<close> when it contains \<open>gray\<close> or
  \<open>grey\<close> and not \<open>green\<close>, and \<open>Unknown\<close> in every other case, also when there
  is no such element or it has no \<open>style\<close> attribute. The style is compared in lower
  case.
\<close>

theorem activity_field:
  assumes "parse_player_profile R html nick = Some p"
    and "BeautifulSoup R html = Inr soup"
  shows "activity p =
     (case dot_element soup of
        None \<Rightarrow> Unknown
      | Some el \<Rightarrow>
          (case map_of (attrs el) (ascii ''style'') of
             None \<Rightarrow> Unknown
           | Some style \<Rightarrow>
               if py_in (ascii ''green'') (lower R style) then Online
               else if py_in (ascii ''gray'') (lower R style)
                       \<or> py_in (ascii ''grey'') (lower R style) then Offline
               else Unknown))"
  using profile_activity [OF assms] by (simp add: activity_of_def)

theorem activity_field_witness:
  "BeautifulSoup sample_runtime html_online = Inr soup_online
   \<and> map_option activity (parse_player_profile sample_runtime html_online (ascii ''Foo''))
       = Some Online"
proof -
  have "parse_player_profile sample_runtime html_online (ascii ''Foo'') \<noteq> None"
    unfolding parse_player_profile_def profile_body_def soup_of_online
    by (simp add: profile_defs string_defs char_defs tree_defs
        soup_online_def html_online_def sample_runtime_def)
  then obtain p where p: "parse_player_profile sample_runtime html_online (ascii ''Foo'') = Some p"
    by blast
  have "activity p = Online"
    unfolding activity_field [OF p soup_of_online]
    by (simp add: dot_element_def class_matches_def string_defs char_defs soup_online_def
        elem_def sample_runtime_def)
  with p soup_of_online show ?thesis
    by simp
qed

section \<open>The leaderboard: what is returned\<close>

lemma map_filter_append:
  "List.map_filter f (xs @ ys) = List.map_filter f xs @ List.map_filter f ys"
  by (simp add: List.map_filter_def)

lemma rows_loop_accepted:
  "rows_loop R rows players = Inr ps \<Longrightarrow> ps = players @ List.map_filter (accepted R) rows"
proof (induction rows arbitrary: players)
  case Nil
  then show ?case by simp
next
  case (Cons row rows)
  show ?case
  proof (cases "leaderboard_row R row")
    case (Inl e)
    with Cons.prems show ?thesis by simp
  next
    case (Inr r)
    show ?thesis
    proof (cases r)
      case None
      with Inr Cons.prems have "rows_loop R rows players = Inr ps" by simp
      from Cons.IH [OF this] Inr None show ?thesis
        by (simp add: accepted_def)
    next
      case (Some p)
      with Inr Cons.prems have "rows_loop R rows (players @ [p]) = Inr ps" by simp
      from Cons.IH [OF this] Inr Some show ?thesis
        by (simp add: accepted_def)
    qed
  qed
qed

lemma tables_loop_accepted:
  "tables_loop R tables players = Inr ps \<Longrightarrow>
   ps = players @ List.map_filter (accepted R) (concat (map (find_all (ascii ''tr'')) tables))"
proof (induction tables arbitrary: players)
  case Nil
  then show ?case by simp
next
  case (Cons t tables)
  from Cons.prems obtain qs where
    q: "rows_loop R (find_all (ascii ''tr'') t) players = Inr qs"
    and r: "tables_loop R tables qs = Inr ps"
    by (auto split: sum.splits)
  from rows_loop_accepted [OF q] Cons.IH [OF r] show ?case
    by (simp add: map_filter_append)
qed

lemma leaderboard_body_accepted:
  assumes "BeautifulSoup R html = Inr soup"
    and "leaderboard_body R html = Inr players"
  shows "players = take 10 (sort_key rank (accepted_entries R soup))"
proof -
  from assms obtain ps where
    l: "tables_loop R (find_all (ascii ''table'') soup) [] = Inr ps"
    and p: "players = take 10 (sort_key rank ps)"
    by (auto simp: leaderboard_body_def split: sum.splits)
  from tables_loop_accepted [OF l] have "ps = accepted_entries R soup"
    by (simp add: accepted_entries_def table_rows_def)
  with p show ?thesis by simp
qed





section \<open>The leaderboard: which rows are kept\<close>



lemma strip_prefix: "\<exists>w. dropWhile (is_space R) s = strip R s @ w"
proof -
  let ?y = "dropWhile (is_space R) s"
  have "rev (dropWhile (is_space R) (rev ?y)) @ rev (takeWhile (is_space R) (rev ?y))
      = rev (takeWhile (is_space R) (rev ?y) @ dropWhile (is_space R) (rev ?y))"
    by (simp only: rev_append)
  also have "\<dots> = rev (rev ?y)"
    by (simp only: takeWhile_dropWhile_id)
  finally have "?y = strip R s @ rev (takeWhile (is_space R) (rev ?y))"
    by (simp add: strip_def)
  then show ?thesis by blast
qed

lemma set_strip: "x \<in> set (strip R s) \<Longrightarrow> x \<in> set s"
proof -
  assume "x \<in> set (strip R s)"
  then have "x \<in> set (dropWhile (is_space R) (rev (dropWhile (is_space R) s)))"
    by (simp add: strip_def)
  then have "x \<in> set (rev (dropWhile (is_space R) s))"
    by (rule set_dropWhileD)
  then have "x \<in> set (dropWhile (is_space R) s)"
    by simp
  then show ?thesis
    by (rule set_dropWhileD)
qed

lemma strip_hd: "strip R s \<noteq> [] \<Longrightarrow> \<not> is_space R (hd (strip R s))"
proof -
  assume n: "strip R s \<noteq> []"
  obtain w where w: "dropWhile (is_space R) s = strip R s @ w"
    using strip_prefix by blast
  with n have "dropWhile (is_space R) s \<noteq> []" by simp
  from hd_dropWhile [OF this] w n show ?thesis by simp
qed

lemma strip_last: "strip R s \<noteq> [] \<Longrightarrow> \<not> is_space R (last (strip R s))"
proof -
  assume n: "strip R s \<noteq> []"
  then have "dropWhile (is_space R) (rev (dropWhile (is_space R) s)) \<noteq> []"
    by (simp add: strip_def)
  from hd_dropWhile [OF this] show ?thesis
    by (simp add: strip_def last_rev)
qed

lemma is_space_32: "is_space R 32"
  by (simp add: is_space_def)

lemma hd_filter_keep: "s \<noteq> [] \<Longrightarrow> P (hd s) \<Longrightarrow> hd (filter P s) = hd s"
  by (cases s) simp_all

lemma last_filter_keep: "s \<noteq> [] \<Longrightarrow> P (last s) \<Longrightarrow> last (filter P s) = last s"
proof -
  assume "s \<noteq> []" and "P (last s)"
  then have "hd (filter P (rev s)) = hd (rev s)"
    by (intro hd_filter_keep) (simp_all add: hd_rev)
  then show ?thesis
    by (simp add: hd_rev rev_filter [symmetric])
qed

lemma value_clean_ends:
  assumes "remove_spaces (strip R s) \<noteq> []"
  shows "\<not> is_space R (hd (remove_spaces (strip R s)))
       \<and> \<not> is_space R (last (remove_spaces (strip R s)))"
proof -
  from assms have n: "strip R s \<noteq> []"
    by (auto simp: remove_spaces_def)
  have h: "hd (strip R s) \<noteq> 32" and l: "last (strip R s) \<noteq> 32"
    using strip_hd [OF n] strip_last [OF n] is_space_32 by metis+
  from n h have "hd (remove_spaces (strip R s)) = hd (strip R s)"
    unfolding remove_spaces_def by (intro hd_filter_keep) simp_all
  moreover from n l have "last (remove_spaces (strip R s)) = last (strip R s)"
    unfolding remove_spaces_def by (intro last_filter_keep) simp_all
  ultimately show ?thesis
    using strip_hd [OF n] strip_last [OF n] by simp
qed

lemma int_literal_decimal:
  "95 \<notin> set s \<Longrightarrow> int_literal R s = (s \<noteq> [] \<and> list_all (is_decimal R) s)"
  by (induction R s rule: int_literal.induct) auto

lemma digits_value_acc:
  "0 \<le> a \<Longrightarrow> 0 \<le> foldl (\<lambda>a c. 10 * a + int (decimal_value R c)) a s"
  by (induction s arbitrary: a) simp_all

lemma digits_value_nonneg: "0 \<le> digits_value R s"
  by (simp add: digits_value_def digits_value_acc)

lemma int_space_is_space: "int_space R c \<Longrightarrow> is_space R c"
  by (auto simp: int_space_def is_space_def split: if_splits)

lemma int_strip_id:
  assumes "s \<noteq> []" and "\<not> is_space R (hd s)" and "\<not> is_space R (last s)"
  shows "rev (dropWhile (int_space R) (rev (dropWhile (int_space R) s))) = s"
proof -
  from assms have h: "\<not> int_space R (hd s)" and l: "\<not> int_space R (last s)"
    using int_space_is_space by blast+
  from assms(1) h have a: "dropWhile (int_space R) s = s"
    by (simp add: dropWhile_eq_self_iff)
  from assms(1) l have "dropWhile (int_space R) (rev s) = rev s"
    by (simp add: dropWhile_eq_self_iff hd_rev)
  with a show ?thesis by simp
qed

lemma py_int_clean:
  assumes "c \<noteq> []"
    and "\<not> is_space R (hd c)" and "\<not> is_space R (last c)"
    and "\<forall>x \<in> set c. is_digit R x \<or> is_space R x"
  shows "py_int R c =
     (if list_all (is_decimal R) c \<and> within_limit R c then Some (digits_value R c) else None)"
proof -
  have s: "rev (dropWhile (int_space R) (rev (dropWhile (int_space R) c))) = c"
    using assms(1-3) by (rule int_strip_id)
  have no: "43 \<notin> set c" "45 \<notin> set c" "95 \<notin> set c"
    using assms(4) by (auto simp: is_digit_def is_decimal_def is_space_def)
  from no assms(1) have h: "hd c \<noteq> 43" "hd c \<noteq> 45"
    by (metis hd_in_set)+
  from no have f: "filter (\<lambda>x. x \<noteq> 95) c = c"
    by (simp add: filter_id_conv) metis
  show ?thesis
    using assms(1) h f int_literal_decimal [OF no(3), of R]
    by (simp add: py_int_def s)
qed

lemma concat_ends:
  assumes "\<forall>x \<in> set xs. x \<noteq> [] \<and> P (hd x) \<and> P (last x)"
    and "concat xs \<noteq> []"
  shows "P (hd (concat xs)) \<and> P (last (concat xs))"
  using assms
proof (induction xs)
  case Nil
  then show ?case by simp
next
  case (Cons x xs)
  show ?case
  proof (cases "concat xs = []")
    case True
    with Cons.prems show ?thesis by simp
  next
    case False
    with Cons show ?thesis by simp
  qed
qed

lemma get_text_ends:
  assumes "get_text R t \<noteq> []"
  shows "\<not> is_space R (hd (get_text R t)) \<and> \<not> is_space R (last (get_text R t))"
  unfolding get_text_def
proof (rule concat_ends)
  show "\<forall>x \<in> set (filter (\<lambda>s. s \<noteq> [])
            (map (strip R) (List.map_filter text_of (descendants t)))).
          x \<noteq> [] \<and> \<not> is_space R (hd x) \<and> \<not> is_space R (last x)"
    using strip_hd strip_last by auto
  from assms show "concat (filter (\<lambda>s. s \<noteq> [])
      (map (strip R) (List.map_filter text_of (descendants t)))) \<noteq> []"
    by (simp add: get_text_def)
qed

lemma int_of_isdigit_text:
  assumes "isdigit R (get_text R t)"
  shows "py_int R (get_text R t) =
     (if list_all (is_decimal R) (get_text R t) \<and> within_limit R (get_text R t)
      then Some (digits_value R (get_text R t)) else None)"
proof -
  from assms have n: "get_text R t \<noteq> []"
    and d: "\<forall>x \<in> set (get_text R t). is_digit R x \<or> is_space R x"
    by (auto simp: isdigit_def list_all_iff)
  from get_text_ends [OF n] py_int_clean [OF n _ _ d] show ?thesis
    by simp
qed

lemma decimal_isdigit: "s \<noteq> [] \<Longrightarrow> list_all (is_decimal R) s \<Longrightarrow> isdigit R s"
  by (auto simp: isdigit_def is_digit_def list_all_iff)

text \<open>
  A row yields an entry exactly when it has three cells or more, the text of the first
  is a string of decimal digits, not empty and not longer than \<open>int()\<close> converts, the
  name found in the second is not empty and the text of the third is not empty.
\<close>

lemma row_kept_iff_decimal:
  "(\<exists>e. leaderboard_row R row = Inr (Some e)) \<longleftrightarrow>
     (3 \<le> length (find_all (ascii ''td'') row)
      \<and> get_text R (find_all (ascii ''td'') row ! 0) \<noteq> []
      \<and> list_all (is_decimal R) (get_text R (find_all (ascii ''td'') row ! 0))
      \<and> within_limit R (get_text R (find_all (ascii ''td'') row ! 0))
      \<and> truthy (player_name_of R (find_all (ascii ''td'') row ! 1))
      \<and> get_text R (find_all (ascii ''td'') row ! 2) \<noteq> [])"
proof (cases "isdigit R (get_text R (find_all (ascii ''td'') row ! 0))")
  case True
  then have "get_text R (find_all (ascii ''td'') row ! 0) \<noteq> []"
    by (simp add: isdigit_def)
  with True int_of_isdigit_text [OF True] show ?thesis
    by (auto simp: leaderboard_row_def Let_def)
next
  case False
  with decimal_isdigit [of "get_text R (find_all (ascii ''td'') row ! 0)" R] show ?thesis
    by (auto simp: leaderboard_row_def Let_def)
qed

text \<open>
  Claim C4 at a failing input. The row of \<open>html_superscript_only\<close> has three cells; the
  text of its first cell passes \<open>isdigit\<close>, the name found in its second cell is
  \<open>Bob\<close> and the text of its third cell is \<open>7\<close>: the three conditions of the claim
  hold. The row is not kept: \<open>int()\<close> raises on its rank, and \<open>parse_leaderboard\<close>
  returns the empty list.
\<close>

theorem superscript_rank_row_not_kept:
  "BeautifulSoup sample_runtime html_superscript_only = Inr soup_superscript_only
   \<and> table_rows soup_superscript_only = [row_superscript]
   \<and> length (find_all (ascii ''td'') row_superscript) = 3
   \<and> get_text sample_runtime (find_all (ascii ''td'') row_superscript ! 0) = [178]
   \<and> isdigit sample_runtime [178]
   \<and> player_name_of sample_runtime (find_all (ascii ''td'') row_superscript ! 1)
       = Some (ascii ''Bob'')
   \<and> get_text sample_runtime (find_all (ascii ''td'') row_superscript ! 2) = ascii ''7''
   \<and> py_int sample_runtime [178] = None
   \<and> leaderboard_row sample_runtime row_superscript = Inl ValueError
   \<and> parse_leaderboard sample_runtime html_superscript_only = []"
proof -
  have r: "table_rows soup_superscript_only = [row_superscript]"
    by (simp add: soup_superscript_only_def row_superscript_def string_defs tree_defs)
  have c: "length (find_all (ascii ''td'') row_superscript) = 3"
    by (simp add: row_superscript_def string_defs tree_defs)
  have c0: "get_text sample_runtime (find_all (ascii ''td'') row_superscript ! 0) = [178]"
    by (simp add: row_superscript_def string_defs char_defs tree_defs sample_runtime_def)
  have d: "isdigit sample_runtime [178]"
    by (simp add: char_defs sample_runtime_def)
  have c1: "player_name_of sample_runtime (find_all (ascii ''td'') row_superscript ! 1)
       = Some (ascii ''Bob'')"
    by (simp add: row_superscript_def player_name_of_def string_defs char_defs tree_defs
        sample_runtime_def)
  have c2: "get_text sample_runtime (find_all (ascii ''td'') row_superscript ! 2) = ascii ''7''"
    by (simp add: row_superscript_def string_defs char_defs tree_defs sample_runtime_def)
  have i: "py_int sample_runtime [178] = None"
    by (simp add: char_defs sample_runtime_def)
  have l: "leaderboard_row sample_runtime row_superscript = Inl ValueError"
    by (simp add: row_superscript_def string_defs char_defs tree_defs sample_runtime_def
        leaderboard_defs)
  have p: "parse_leaderboard sample_runtime html_superscript_only = []"
    unfolding parse_leaderboard_def leaderboard_body_def soup_of_superscript_only
    by (simp add: soup_superscript_only_def row_superscript_def string_defs char_defs
        tree_defs sample_runtime_def leaderboard_defs)
  show ?thesis
    using soup_of_superscript_only r c c0 d c1 c2 i l p by blast
qed

section \<open>The leaderboard: the value of an entry\<close>

lemma value_of_decimal:
  "value_of R t =
     (let c = remove_spaces (strip R (keep_digits_spaces R t))
      in if c \<noteq> [] \<and> list_all (is_decimal R) c \<and> within_limit R c
         then digits_value R c else 0)"
proof (cases "remove_spaces (strip R (keep_digits_spaces R t)) = []")
  case True
  then show ?thesis
    by (simp add: value_of_def)
next
  case False
  have sub: "set (remove_spaces (strip R (keep_digits_spaces R t)))
      \<subseteq> set (keep_digits_spaces R t)"
    by (auto simp: remove_spaces_def dest: set_strip)
  have "\<forall>x \<in> set (remove_spaces (strip R (keep_digits_spaces R t))).
      is_digit R x \<or> is_space R x"
    using sub by (auto simp: keep_digits_spaces_def is_digit_def)
  from py_int_clean [OF False _ _ this] value_clean_ends [OF False] False
  show ?thesis
    by (simp add: value_of_def Let_def)
qed

lemma value_of_nonneg: "0 \<le> value_of R t"
  by (simp add: value_of_decimal Let_def digits_value_nonneg)

lemma leaderboard_row_entry:
  assumes "leaderboard_row R row = Inr (Some e)"
  shows "3 \<le> length (find_all (ascii ''td'') row)
       \<and> formatted_value e = get_text R (find_all (ascii ''td'') row ! 2)
       \<and> value_int e = value_of R (formatted_value e)"
  using assms
  by (auto simp: leaderboard_row_def Let_def split: if_splits option.splits)

lemma accepted_entries_row:
  "e \<in> set (accepted_entries R soup) \<Longrightarrow>
   \<exists>row \<in> set (table_rows soup). leaderboard_row R row = Inr (Some e)"
  by (auto simp: accepted_entries_def List.map_filter_def accepted_def split: sum.splits)

lemma parse_leaderboard_row:
  assumes "BeautifulSoup R html = Inr soup"
    and "e \<in> set (parse_leaderboard R html)"
  shows "\<exists>row \<in> set (table_rows soup). leaderboard_row R row = Inr (Some e)"
proof (cases "leaderboard_body R html")
  case (Inl x)
  with assms(2) show ?thesis
    by (simp add: parse_leaderboard_def)
next
  case (Inr players)
  from leaderboard_body_accepted [OF assms(1) Inr] Inr assms(2)
  have "e \<in> set (take 10 (sort_key rank (accepted_entries R soup)))"
    by (simp add: parse_leaderboard_def)
  then have "e \<in> set (accepted_entries R soup)"
    using set_take_subset [of 10 "sort_key rank (accepted_entries R soup)"] by auto
  then show ?thesis
    by (rule accepted_entries_row)
qed

text \<open>
  Claim C5, amended. Every entry that \<open>parse_leaderboard\<close> returns comes from a row of
  a table with three cells or more; its \<open>formatted_value\<close> is the text of the third
  cell as it is; its \<open>value\<close> is read from that text: every character except decimal
  digits and whitespace is deleted, the whitespace at both ends is removed, every space
  character (U+0020) is deleted; when decimal digits only are left, at least one and no
  more than \<open>int()\<close> converts, the value is their number, and it is 0 when nothing is
  left, when other whitespace is left between the digits or when the digits are too
  many. The value is never negative.
\<close>

theorem entry_value:
  assumes "BeautifulSoup R html = Inr soup"
    and "e \<in> set (parse_leaderboard R html)"
  shows "\<exists>row \<in> set (table_rows soup).
           3 \<le> length (find_all (ascii ''td'') row)
           \<and> formatted_value e = get_text R (find_all (ascii ''td'') row ! 2)
           \<and> value_int e =
               (let c = remove_spaces (strip R (keep_digits_spaces R (formatted_value e)))
                in if c \<noteq> [] \<and> list_all (is_decimal R) c \<and> within_limit R c
                   then digits_value R c else 0)
           \<and> 0 \<le> value_int e"
proof -
  from parse_leaderboard_row [OF assms] obtain row where
    r: "row \<in> set (table_rows soup)" and l: "leaderboard_row R row = Inr (Some e)"
    by blast
  from leaderboard_row_entry [OF l] value_of_decimal [of R "formatted_value e"]
    value_of_nonneg [of R "formatted_value e"]
  have "3 \<le> length (find_all (ascii ''td'') row)
           \<and> formatted_value e = get_text R (find_all (ascii ''td'') row ! 2)
           \<and> value_int e =
               (let c = remove_spaces (strip R (keep_digits_spaces R (formatted_value e)))
                in if c \<noteq> [] \<and> list_all (is_decimal R) c \<and> within_limit R c
                   then digits_value R c else 0)
           \<and> 0 \<le> value_int e"
    by simp
  with r show ?thesis by blast
qed

theorem entry_value_witness:
  "BeautifulSoup sample_runtime html_two_rows = Inr soup_two_rows
   \<and> parse_leaderboard sample_runtime html_two_rows =
       [\<lparr>rank = 1, name = ascii ''Alice'', value_int = 1000,
          formatted_value = ascii ''1 000''\<rparr>,
        \<lparr>rank = 2, name = ascii ''Bob'', value_int = 500, formatted_value = ascii ''500''\<rparr>]
   \<and> (\<exists>row \<in> set (table_rows soup_two_rows).
         3 \<le> length (find_all (ascii ''td'') row)
         \<and> ascii ''1 000'' = get_text sample_runtime (find_all (ascii ''td'') row ! 2)
         \<and> (1000 :: int) =
             (let c = remove_spaces (strip sample_runtime
                        (keep_digits_spaces sample_runtime (ascii ''1 000'')))
              in if c \<noteq> [] \<and> list_all (is_decimal sample_runtime) c
                    \<and> within_limit sample_runtime c
                 then digits_value sample_runtime c else 0))"
proof -
  let ?alice = "\<lparr>rank = 1, name = ascii ''Alice'', value_int = 1000,
                  formatted_value = ascii ''1 000''\<rparr>"
  have p: "parse_leaderboard sample_runtime html_two_rows =
       [?alice,
        \<lparr>rank = 2, name = ascii ''Bob'', value_int = 500, formatted_value = ascii ''500''\<rparr>]"
    unfolding parse_leaderboard_def leaderboard_body_def soup_of_two_rows
    by (simp add: string_defs char_defs tree_defs soup_two_rows_def sample_runtime_def
        leaderboard_defs)
  then have m: "?alice \<in> set (parse_leaderboard sample_runtime html_two_rows)"
    by simp
  from entry_value [OF soup_of_two_rows m] soup_of_two_rows p show ?thesis
    by simp
qed

text \<open>
  The claim as it is written deletes all the whitespace before the number is read. On the
  value text \<open>1\<close>, tab, \<open>000\<close> that gives 1000; the code deletes the spaces only, the
  tab stays between the digits, \<open>int()\<close> raises and the value is 0.
\<close>

theorem entry_value_counterexample:
  "parse_leaderboard sample_runtime html_tab_value =
     [\<lparr>rank = 1, name = ascii ''Alice'', value_int = 0, formatted_value = one_tab_000\<rparr>]
   \<and> value_as_specified sample_runtime one_tab_000 = 1000"
proof -
  have p: "parse_leaderboard sample_runtime html_tab_value =
     [\<lparr>rank = 1, name = ascii ''Alice'', value_int = 0, formatted_value = one_tab_000\<rparr>]"
    unfolding parse_leaderboard_def leaderboard_body_def soup_of_tab_value
    by (simp add: string_defs char_defs tree_defs soup_tab_value_def one_tab_000_def
        sample_runtime_def leaderboard_defs)
  have v: "value_as_specified sample_runtime one_tab_000 = 1000"
    by (simp add: value_as_specified_def one_tab_000_def string_defs char_defs
        sample_runtime_def)
  from p v show ?thesis by blast
qed

section \<open>The statistics of a profile\<close>
















end
